theory Spec2Isabelle
  imports Main
begin

section \<open>Errors\<close>

text \<open>
  Every \<^verbatim>\<open>throw\<close> of the source is a value. \<open>JsonWebTokenError m\<close>,
  \<open>TokenExpiredError\<close> and \<open>NotBeforeError\<close> are the error classes of the
  \<^verbatim>\<open>jsonwebtoken\<close> package (the last two are subclasses of the first, thrown with the
  messages \<^verbatim>\<open>jwt expired\<close> and \<^verbatim>\<open>jwt not active\<close>); \<open>Error m\<close> is a plain
  \<^verbatim>\<open>new Error(m)\<close>, which is what \<^verbatim>\<open>RedisService\<close> throws and what \<^verbatim>\<open>jwt.sign\<close> throws
  on a bad secret or lifetime. \<open>SessionRevoked\<close> is an error kind of the specification;
  no function of the source raises it.
\<close>

datatype error =
    JsonWebTokenError string
  | TokenExpiredError
  | NotBeforeError
  | Error string
  | SessionRevoked


abbreviation TokenSignatureInvalid :: error where
  "TokenSignatureInvalid \<equiv> JsonWebTokenError ''invalid signature''"

abbreviation TokenExpired :: error where
  "TokenExpired \<equiv> TokenExpiredError"

section \<open>Tokens and the \<^verbatim>\<open>jsonwebtoken\<close> package\<close>

text \<open>
  A payload is a decoded JSON object: an association list from claim names to values,
  in the order of the keys, each key once. Numbers are integers; \<open>JOther x\<close> is any
  value that is neither a string nor a number (\<^verbatim>\<open>true\<close>, \<^verbatim>\<open>null\<close>, an array, an object),
  by its JSON text.
\<close>

datatype jvalue = JString string | JNumber int | JOther string

type_synonym claims = "(string \<times> jvalue) list"

text \<open>
  The \<^verbatim>\<open>alg\<close> field of a token's header; \<open>AlgOther x\<close> is any value \<open>x\<close> other than
  \<^verbatim>\<open>HS256\<close>, \<^verbatim>\<open>HS384\<close> and \<^verbatim>\<open>HS512\<close>. With a secret string and no options,
  \<^verbatim>\<open>jwt.verify\<close> admits the three HMAC algorithms.
\<close>

datatype alg = AlgHS256 | AlgHS384 | AlgHS512 | AlgOther string

definition hmac_alg :: "alg \<Rightarrow> bool" where
  "hmac_alg a = (a = AlgHS256 \<or> a = AlgHS384 \<or> a = AlgHS512)"

text \<open>
  The signature segment is symbolic: \<open>Hmac a k c\<close> is the HMAC that algorithm \<open>a\<close>
  computes under the key \<open>k\<close> over the encoded header (with \<^verbatim>\<open>alg\<close> \<open>a\<close>) and payload \<open>c\<close>.
  Two signatures are equal exactly when algorithm, key and content are, which is the
  usual idealisation of a message authentication code (no collisions, no forgery
  without the key). \<open>NoSignature\<close> is an empty third segment.

  A token on the wire is a string. \<open>Token a c s\<close> stands for a string of three
  dot-separated base64url segments whose header decodes to \<^verbatim>\<open>{alg: a, typ: JWT}\<close>, whose
  payload decodes to the object \<open>c\<close> and whose third segment is \<open>s\<close>. \<open>NotJwt x\<close> stands
  for a string \<open>x\<close> that is empty, or does not have three segments, or whose header does
  not decode. A string with a header that decodes and a payload that is not a JSON
  object is outside the model.
\<close>

datatype signature = Hmac alg string claims | NoSignature

datatype token = NotJwt string | Token alg claims signature

text \<open>
  What \<^verbatim>\<open>jwt.sign\<close> produces by default: the header \<^verbatim>\<open>{alg: HS256, typ: JWT}\<close> and an
  HMAC-SHA256 signature.
\<close>

abbreviation HS256 :: "string \<Rightarrow> claims \<Rightarrow> signature" where
  "HS256 k c \<equiv> Hmac AlgHS256 k c"

abbreviation Jwt :: "claims \<Rightarrow> signature \<Rightarrow> token" where
  "Jwt c s \<equiv> Token AlgHS256 c s"

text \<open>The length of \<^verbatim>\<open>x.split('.')\<close>.\<close>

definition segments :: "string \<Rightarrow> nat" where
  "segments x = Suc (length (filter (\<lambda>ch. ch = CHR ''.'') x))"

fun payload :: "token \<Rightarrow> claims" where
  "payload (NotJwt x) = []"
| "payload (Token a c s) = c"

text \<open>
  \<^verbatim>\<open>jwt.sign(payload, secretOrPrivateKey, {expiresIn})\<close>. The clock reading \<open>now\<close> is
  \<^verbatim>\<open>Math.floor(Date.now() / 1000)\<close>. A string \<^verbatim>\<open>expiresIn\<close> is handed to the \<^verbatim>\<open>ms\<close>
  package, which returns a number of milliseconds or \<^verbatim>\<open>undefined\<close>; that parser is the
  parameter \<open>ms\<close>. The library then sets \<^verbatim>\<open>iat\<close> to the clock reading and \<^verbatim>\<open>exp\<close> to
  \<^verbatim>\<open>Math.floor(iat + milliseconds / 1000)\<close>. It throws when the secret is empty and when
  the lifetime does not parse. The payloads signed in this program never hold an
  \<^verbatim>\<open>iat\<close> or \<^verbatim>\<open>exp\<close> key of their own.
\<close>

definition jwt_sign ::
  "(string \<Rightarrow> int option) \<Rightarrow> int \<Rightarrow> claims \<Rightarrow> string \<Rightarrow> string \<Rightarrow> error + token" where
  "jwt_sign ms now pl secretOrPrivateKey expiresIn =
     (if secretOrPrivateKey = [] then Inl (Error ''secretOrPrivateKey must have a value'')
      else case ms expiresIn of
        None \<Rightarrow> Inl (Error ''expiresIn should be a number of seconds or string representing a timespan'')
      | Some milliseconds \<Rightarrow>
          let c = pl @ [(''iat'', JNumber now), (''exp'', JNumber (now + milliseconds div 1000))]
          in Inr (Jwt c (HS256 secretOrPrivateKey c)))"

text \<open>
  The two time checks of \<^verbatim>\<open>jwt.verify\<close> on a payload whose signature was accepted, in
  the library's order: \<^verbatim>\<open>nbf\<close> first (\<^verbatim>\<open>payload.nbf > clockTimestamp\<close> is
  \<^verbatim>\<open>NotBeforeError\<close>), then \<^verbatim>\<open>exp\<close>. With no options the clock tolerance is
  \<^verbatim>\<open>options.clockTolerance || 0\<close>, so the expiry test is
  \<^verbatim>\<open>clockTimestamp >= payload.exp\<close>. A claim that is present and not a number is
  refused; a payload without \<^verbatim>\<open>exp\<close> never expires.
\<close>

definition check_exp :: "int \<Rightarrow> claims \<Rightarrow> error + claims" where
  "check_exp now c =
     (case map_of c ''exp'' of
        None \<Rightarrow> Inr c
      | Some (JNumber e) \<Rightarrow> if now \<ge> e then Inl TokenExpiredError else Inr c
      | Some v \<Rightarrow> Inl (JsonWebTokenError ''invalid exp value''))"

definition check_nbf_exp :: "int \<Rightarrow> claims \<Rightarrow> error + claims" where
  "check_nbf_exp now c =
     (case map_of c ''nbf'' of
        None \<Rightarrow> check_exp now c
      | Some (JNumber n) \<Rightarrow> if n > now then Inl NotBeforeError else check_exp now c
      | Some v \<Rightarrow> Inl (JsonWebTokenError ''invalid nbf value''))"

text \<open>
  \<^verbatim>\<open>jwt.verify(token, secretOrPublicKey)\<close> with no options, in the library's order: the
  empty string, the three-segment shape, the decoding, a missing signature or key, the
  algorithm, the signature, then the time checks. The quotation marks inside two of the
  library's messages are left out.
\<close>

definition jwt_verify :: "int \<Rightarrow> token \<Rightarrow> string \<Rightarrow> error + claims" where
  "jwt_verify now tok secretOrPublicKey =
     (case tok of
        NotJwt x \<Rightarrow>
          if x = [] then Inl (JsonWebTokenError ''jwt must be provided'')
          else if segments x = 3 then Inl (JsonWebTokenError ''invalid token'')
          else Inl (JsonWebTokenError ''jwt malformed'')
      | Token a c s \<Rightarrow>
          if s = NoSignature then
            (if secretOrPublicKey = []
             then Inl (JsonWebTokenError ''please specify none in algorithms to verify unsigned tokens'')
             else Inl (JsonWebTokenError ''jwt signature is required''))
          else if secretOrPublicKey = []
            then Inl (JsonWebTokenError ''secret or public key must be provided'')
          else if hmac_alg a then
            (if s = Hmac a secretOrPublicKey c then check_nbf_exp now c
             else Inl (JsonWebTokenError ''invalid signature''))
          else Inl (JsonWebTokenError ''invalid algorithm''))"

section \<open>Configuration\<close>

text \<open>
  \<^verbatim>\<open>config/env.config\<close> is not among the files at hand; the values the two services read
  from it are the fields of this record.
\<close>

record env =
  ACCESS_TOKEN_SECRET :: string
  REFRESH_TOKEN_SECRET :: string
  ACCESS_TOKEN_EXPIRY :: string
  REFRESH_TOKEN_EXPIRY :: string

section \<open>\<^verbatim>\<open>JwtService\<close>\<close>

definition generateAccessToken ::
  "(string \<Rightarrow> int option) \<Rightarrow> env \<Rightarrow> int \<Rightarrow> string \<Rightarrow> error + token" where
  "generateAccessToken ms e now userId =
     jwt_sign ms now [(''userId'', JString userId)] (ACCESS_TOKEN_SECRET e) (ACCESS_TOKEN_EXPIRY e)"

definition generateRefreshToken ::
  "(string \<Rightarrow> int option) \<Rightarrow> env \<Rightarrow> int \<Rightarrow> string \<Rightarrow> error + token" where
  "generateRefreshToken ms e now userId =
     jwt_sign ms now [(''userId'', JString userId)] (REFRESH_TOKEN_SECRET e) (REFRESH_TOKEN_EXPIRY e)"

definition verifyAccessToken :: "env \<Rightarrow> int \<Rightarrow> token \<Rightarrow> error + claims" where
  "verifyAccessToken e now tok = jwt_verify now tok (ACCESS_TOKEN_SECRET e)"

definition verifyRefreshToken :: "env \<Rightarrow> int \<Rightarrow> token \<Rightarrow> error + claims" where
  "verifyRefreshToken e now tok = jwt_verify now tok (REFRESH_TOKEN_SECRET e)"

section \<open>The Redis client\<close>

text \<open>
  An awaited call either resolves with a value, or rejects with an error, or never
  settles; in the last case the caller's \<^verbatim>\<open>await\<close> never returns.
\<close>

datatype 'a promise = Pending | Rejected error | Resolved 'a

text \<open>
  The \<^verbatim>\<open>redis\<close> package and the server behind it are outside the sources; this is
  their behaviour as far as \<^verbatim>\<open>RedisService\<close> can observe it. The constructor of
  \<^verbatim>\<open>RedisService\<close> creates the client with default options and calls \<^verbatim>\<open>connect()\<close>,
  logging a failure. From then on the client is open and reconnects by itself, and the
  link is in one of three states:
  \<^item> \<open>Ready\<close>: the server answers;
  \<^item> \<open>Offline\<close>: the server cannot be reached; the open client keeps every command in
    its offline queue until the link is back, and no timeout is set, so a command sent
    now does not settle (the link is taken to stay down, and the command not to run);
  \<^item> \<open>Rejecting\<close>: the client rejects a command sent now without running it (the client
    has been closed).

  The client handle stands for the server's keyspace together with the link: \<open>entries\<close>
  maps a live key to its value and its remaining time to live in seconds.
  \<^verbatim>\<open>RedisService\<close> passes values through unchanged, so the model is polymorphic in the
  value type (the source stores strings); only this service writes the keys.
\<close>

datatype link_state = Ready | Offline | Rejecting

record 'v client =
  entries :: "string \<rightharpoonup> ('v \<times> int)"
  link :: link_state

text \<open>
  \<^verbatim>\<open>SETEX key seconds value\<close>: the server refuses a time to live that is not positive
  (\<^verbatim>\<open>ERR invalid expire time\<close>); otherwise the key is overwritten and its timer restarts.
  The number of seconds is taken to be an integer.
\<close>

definition setEx :: "'v client \<Rightarrow> string \<Rightarrow> int \<Rightarrow> 'v \<Rightarrow> 'v client promise" where
  "setEx c key seconds v =
     (case link c of
        Ready \<Rightarrow>
          if seconds \<le> 0 then Rejected (Error ''ERR invalid expire time in setex command'')
          else Resolved (c\<lparr>entries := (entries c)(key \<mapsto> (v, seconds))\<rparr>)
      | Offline \<Rightarrow> Pending
      | Rejecting \<Rightarrow> Rejected (Error ''The client is closed''))"

text \<open>\<^verbatim>\<open>GET key\<close>: the value, or \<^verbatim>\<open>null\<close> for a key that is not there.\<close>

definition client_get :: "'v client \<Rightarrow> string \<Rightarrow> 'v option promise" where
  "client_get c key =
     (case link c of
        Ready \<Rightarrow> Resolved (map_option fst (entries c key))
      | Offline \<Rightarrow> Pending
      | Rejecting \<Rightarrow> Rejected (Error ''The client is closed''))"

text \<open>\<^verbatim>\<open>DEL key\<close>: removes the key if it is there (the reply, a count, is not used).\<close>

definition client_del :: "'v client \<Rightarrow> string \<Rightarrow> 'v client promise" where
  "client_del c key =
     (case link c of
        Ready \<Rightarrow> Resolved (c\<lparr>entries := (entries c)(key := None)\<rparr>)
      | Offline \<Rightarrow> Pending
      | Rejecting \<Rightarrow> Rejected (Error ''The client is closed''))"

text \<open>The passing of \<open>d\<close> seconds: timers run down and a key whose timer ends is gone.\<close>

definition elapse :: "int \<Rightarrow> 'v client \<Rightarrow> 'v client" where
  "elapse d c =
     c\<lparr>entries := (\<lambda>k. case entries c k of
                          None \<Rightarrow> None
                        | Some (v, ttl) \<Rightarrow> if d < ttl then Some (v, ttl - d) else None)\<rparr>"

section \<open>\<^verbatim>\<open>RedisService\<close>\<close>

text \<open>
  Each method awaits one client command inside \<^verbatim>\<open>try\<close> and, in \<^verbatim>\<open>catch\<close>, throws a new
  \<^verbatim>\<open>Error\<close> with a fixed message; the client's own error is dropped. A command that
  does not settle leaves the method pending. The names carry a suffix because \<open>set\<close> is
  a constant of HOL.
\<close>

definition set_redis :: "'v client \<Rightarrow> string \<Rightarrow> 'v \<Rightarrow> int \<Rightarrow> 'v client promise" where
  "set_redis c key v expirySeconds =
     (case setEx c key expirySeconds v of
        Pending \<Rightarrow> Pending
      | Rejected err \<Rightarrow> Rejected (Error ''Redis set failed'')
      | Resolved c' \<Rightarrow> Resolved c')"

definition get_redis :: "'v client \<Rightarrow> string \<Rightarrow> 'v option promise" where
  "get_redis c key =
     (case client_get c key of
        Pending \<Rightarrow> Pending
      | Rejected err \<Rightarrow> Rejected (Error ''Redis get failed'')
      | Resolved r \<Rightarrow> Resolved r)"

definition del_redis :: "'v client \<Rightarrow> string \<Rightarrow> 'v client promise" where
  "del_redis c key =
     (case client_del c key of
        Pending \<Rightarrow> Pending
      | Rejected err \<Rightarrow> Rejected (Error ''Redis delete failed'')
      | Resolved c' \<Rightarrow> Resolved c')"

text \<open>
  The specification's \<open>StoreUnavailable\<close> is any of the three errors \<^verbatim>\<open>RedisService\<close>
  throws.
\<close>

definition StoreUnavailable :: "error \<Rightarrow> bool" where
  "StoreUnavailable err =
     (err = Error ''Redis set failed'' \<or> err = Error ''Redis get failed''
      \<or> err = Error ''Redis delete failed'')"

section \<open>The session layer of the specification\<close>

text \<open>
  The files at hand hold the two services above and nothing that calls them: login,
  logout and the revocation index are described by the specification only (sections 3,
  4.3, 4.4 and 6). The definitions of this section follow its words, on top of the
  services as the source has them; tokens are issued by the source's \<^verbatim>\<open>JwtService\<close>. The
  session identifier that login draws at random is an argument. Every operation reads
  the clock once, and an operation whose store call does not settle is itself pending.
\<close>

text \<open>
  Modelled from the spec: the refresh fingerprint, a one-way hash of a refresh token
  (section 3). The hash is symbolic: two fingerprints are equal exactly when the tokens
  are.
\<close>

datatype fingerprint = Fingerprint token

text \<open>
  Modelled from the spec: the two kinds of stored value (section 6),
  \<^verbatim>\<open>{userId, refreshFingerprint, createdAt, lastRotatedAt}\<close> under \<^verbatim>\<open>session:{sessionId}\<close>
  and \<^verbatim>\<open>{revokedAt}\<close> under \<^verbatim>\<open>revoked:{subjectId}\<close>. A value stands for its
  serialisation.
\<close>

datatype stored = SessionRecord string fingerprint int int | RevocationEntry int


text \<open>
  Modelled from the spec: what the session layer works on, the injected clock (in
  seconds) and the shared store.
\<close>

record world =
  clock :: int
  store :: "stored client"

text \<open>Modelled from the spec: time passing, for the clock and the store's timers alike.\<close>

definition advance :: "int \<Rightarrow> world \<Rightarrow> world" where
  "advance d w = \<lparr>clock = clock w + d, store = elapse d (store w)\<rparr>"



text \<open>
  Modelled from the spec: \<^verbatim>\<open>add(subjectId)\<close> of the revocation index (section 4.4),
  which is kept in the store under \<^verbatim>\<open>revoked:{subjectId}\<close> with a time to live of the
  access-token lifetime.
\<close>

definition revocation_add ::
  "(string \<Rightarrow> int option) \<Rightarrow> env \<Rightarrow> world \<Rightarrow> string \<Rightarrow> unit promise \<times> world" where
  "revocation_add ms e w subjectId =
     (case ms (ACCESS_TOKEN_EXPIRY e) of
        None \<Rightarrow> (Rejected (Error ''access token lifetime is not a timespan''), w)
      | Some milliseconds \<Rightarrow>
          (case set_redis (store w) (''revoked:'' @ subjectId) (RevocationEntry (clock w))
                  (milliseconds div 1000) of
             Pending \<Rightarrow> (Pending, w)
           | Rejected err \<Rightarrow> (Rejected err, w)
           | Resolved c \<Rightarrow> (Resolved (), w\<lparr>store := c\<rparr>)))"

text \<open>
  Modelled from the spec: \<^verbatim>\<open>contains(subjectId)\<close> of the revocation index (section 4.4),
  a read of \<^verbatim>\<open>revoked:{subjectId}\<close>.
\<close>

definition revocation_contains :: "world \<Rightarrow> string \<Rightarrow> bool promise" where
  "revocation_contains w subjectId =
     (case get_redis (store w) (''revoked:'' @ subjectId) of
        Pending \<Rightarrow> Pending
      | Rejected err \<Rightarrow> Rejected err
      | Resolved None \<Rightarrow> Resolved False
      | Resolved (Some v) \<Rightarrow> Resolved True)"


text \<open>
  Modelled from the spec: \<^verbatim>\<open>logout(sessionId)\<close> of section 4.3: delete the session
  record, then add the session to the revocation index.
\<close>

definition logout ::
  "(string \<Rightarrow> int option) \<Rightarrow> env \<Rightarrow> world \<Rightarrow> string \<Rightarrow> unit promise \<times> world" where
  "logout ms e w sessionId =
     (case del_redis (store w) (''session:'' @ sessionId) of
        Pending \<Rightarrow> (Pending, w)
      | Rejected err \<Rightarrow> (Rejected err, w)
      | Resolved c \<Rightarrow> revocation_add ms e (w\<lparr>store := c\<rparr>) sessionId)"

section \<open>A sample configuration\<close>

text \<open>
  The lifetimes of the specification's example, 15 minutes and 7 days, with the \<^verbatim>\<open>ms\<close>
  parser restricted to these two strings and to \<^verbatim>\<open>500\<close> (a bare number is a number of
  milliseconds); and a store with no keys whose server answers.
\<close>

definition sample_ms :: "string \<Rightarrow> int option" where
  "sample_ms x =
     (if x = ''15m'' then Some 900000 else if x = ''7d'' then Some 604800000
      else if x = ''500'' then Some 500 else None)"

definition sample_env :: env where
  "sample_env =
     \<lparr>ACCESS_TOKEN_SECRET = ''access-secret'', REFRESH_TOKEN_SECRET = ''refresh-secret'',
      ACCESS_TOKEN_EXPIRY = ''15m'', REFRESH_TOKEN_EXPIRY = ''7d''\<rparr>"

definition empty_store :: "'v client" where
  "empty_store = \<lparr>entries = Map.empty, link = Ready\<rparr>"

text \<open>The same configuration with one secret used for both kinds of token.\<close>

definition shared_secret_env :: env where
  "shared_secret_env = sample_env\<lparr>REFRESH_TOKEN_SECRET := ''access-secret''\<rparr>"


text \<open>A store whose server cannot be reached, and one whose client rejects commands.\<close>

definition offline_store :: "'v client" where
  "offline_store = \<lparr>entries = Map.empty, link = Offline\<rparr>"

definition rejecting_store :: "'v client" where
  "rejecting_store = \<lparr>entries = Map.empty, link = Rejecting\<rparr>"

text \<open>The world at clock 120 after user \<^verbatim>\<open>u1\<close> was put into the revocation index.\<close>

definition revoked_u1 :: world where
  "revoked_u1 =
     snd (revocation_add sample_ms sample_env \<lparr>clock = 120, store = empty_store\<rparr> ''u1'')"


definition sample_A1 :: token where
  "sample_A1 =
     Jwt [(''userId'', JString ''u1''), (''iat'', JNumber 100), (''exp'', JNumber 1000)]
       (HS256 ''access-secret''
          [(''userId'', JString ''u1''), (''iat'', JNumber 100), (''exp'', JNumber 1000)])"




section \<open>Signing and verifying\<close>

lemma jwt_sign_Inr:
  assumes "k \<noteq> []" and "ms x = Some m"
  shows "jwt_sign ms t0 pl k x =
           Inr (Jwt (pl @ [(''iat'', JNumber t0), (''exp'', JNumber (t0 + m div 1000))])
                 (HS256 k (pl @ [(''iat'', JNumber t0), (''exp'', JNumber (t0 + m div 1000))])))"
  using assms by (simp add: jwt_sign_def Let_def)





lemma jwt_verify_bad_signature:
  "k \<noteq> [] \<Longrightarrow> s \<noteq> NoSignature \<Longrightarrow> hmac_alg a \<Longrightarrow> s \<noteq> Hmac a k c \<Longrightarrow>
   jwt_verify now (Token a c s) k = Inl TokenSignatureInvalid"
  by (simp add: jwt_verify_def)

lemma jwt_verify_signed:
  "k \<noteq> [] \<Longrightarrow> hmac_alg a \<Longrightarrow> jwt_verify now (Token a c (Hmac a k c)) k = check_nbf_exp now c"
  by (simp add: jwt_verify_def)


lemma check_nbf_exp_active:
  assumes "map_of c ''nbf'' = None \<or> map_of c ''nbf'' = Some (JNumber n) \<and> n \<le> now"
    and "map_of c ''exp'' = Some (JNumber x)"
  shows "check_nbf_exp now c = (if x \<le> now then Inl TokenExpired else Inr c)"
  using assms by (auto simp: check_nbf_exp_def check_exp_def)

lemma jwt_verify_live:
  "k \<noteq> [] \<Longrightarrow> map_of c ''nbf'' = None \<Longrightarrow> map_of c ''exp'' = Some (JNumber x) \<Longrightarrow> now < x \<Longrightarrow>
   jwt_verify now (Jwt c (HS256 k c)) k = Inr c"
  by (simp add: jwt_verify_def check_nbf_exp_def check_exp_def hmac_alg_def)

lemma check_exp_never_SessionRevoked: "check_exp now c \<noteq> Inl SessionRevoked"
  by (simp add: check_exp_def split: option.split jvalue.split)

lemma check_nbf_exp_never_SessionRevoked: "check_nbf_exp now c \<noteq> Inl SessionRevoked"
  by (simp add: check_nbf_exp_def check_exp_never_SessionRevoked split: option.split jvalue.split)

lemma jwt_verify_never_SessionRevoked: "jwt_verify now tok k \<noteq> Inl SessionRevoked"
  by (simp add: jwt_verify_def check_nbf_exp_never_SessionRevoked split: token.split)

text \<open>
  C7. Issue/verify round trip. Under a configuration with which tokens can be issued at
  all (a secret that is not empty, a lifetime the \<^verbatim>\<open>ms\<close> parser accepts), for every user
  \<open>u\<close>: \<open>generateAccessToken\<close> returns a token, and \<open>verifyAccessToken\<close> at any time
  before that token's \<^verbatim>\<open>exp\<close> returns exactly the claims that were signed, whose subject
  claim (carried under the key \<^verbatim>\<open>userId\<close>) is \<open>u\<close>. The same holds for
  \<open>generateRefreshToken\<close> and \<open>verifyRefreshToken\<close>.
\<close>

theorem issue_verify_roundtrip:
  assumes "ACCESS_TOKEN_SECRET e \<noteq> []" and "ms (ACCESS_TOKEN_EXPIRY e) = Some ma"
    and "t < t0 + ma div 1000"
    and "REFRESH_TOKEN_SECRET e \<noteq> []" and "ms (REFRESH_TOKEN_EXPIRY e) = Some mr"
    and "t' < t0' + mr div 1000"
  shows "\<exists>a r. generateAccessToken ms e t0 u = Inr a
           \<and> verifyAccessToken e t a = Inr (payload a)
           \<and> payload a = [(''userId'', JString u), (''iat'', JNumber t0),
                           (''exp'', JNumber (t0 + ma div 1000))]
           \<and> map_of (payload a) ''userId'' = Some (JString u)
           \<and> generateRefreshToken ms e t0' u = Inr r
           \<and> verifyRefreshToken e t' r = Inr (payload r)
           \<and> payload r = [(''userId'', JString u), (''iat'', JNumber t0'),
                           (''exp'', JNumber (t0' + mr div 1000))]
           \<and> map_of (payload r) ''userId'' = Some (JString u)"
proof -
  let ?ca = "[(''userId'', JString u), (''iat'', JNumber t0), (''exp'', JNumber (t0 + ma div 1000))]"
  let ?cr = "[(''userId'', JString u), (''iat'', JNumber t0'), (''exp'', JNumber (t0' + mr div 1000))]"
  have ga: "generateAccessToken ms e t0 u = Inr (Jwt ?ca (HS256 (ACCESS_TOKEN_SECRET e) ?ca))"
    using assms(1,2) by (simp add: generateAccessToken_def jwt_sign_Inr)
  have gr: "generateRefreshToken ms e t0' u = Inr (Jwt ?cr (HS256 (REFRESH_TOKEN_SECRET e) ?cr))"
    using assms(4,5) by (simp add: generateRefreshToken_def jwt_sign_Inr)
  have va: "verifyAccessToken e t (Jwt ?ca (HS256 (ACCESS_TOKEN_SECRET e) ?ca)) = Inr ?ca"
    unfolding verifyAccessToken_def using assms(1,3) by (intro jwt_verify_live) simp_all
  have vr: "verifyRefreshToken e t' (Jwt ?cr (HS256 (REFRESH_TOKEN_SECRET e) ?cr)) = Inr ?cr"
    unfolding verifyRefreshToken_def using assms(4,6) by (intro jwt_verify_live) simp_all
  show ?thesis using ga gr va vr by simp
qed

theorem issue_verify_roundtrip_witness:
  "\<exists>a r. generateAccessToken sample_ms sample_env 100 ''u1'' = Inr a
     \<and> verifyAccessToken sample_env 999 a = Inr (payload a)
     \<and> payload a = [(''userId'', JString ''u1''), (''iat'', JNumber 100), (''exp'', JNumber 1000)]
     \<and> map_of (payload a) ''userId'' = Some (JString ''u1'')
     \<and> generateRefreshToken sample_ms sample_env 100 ''u1'' = Inr r
     \<and> verifyRefreshToken sample_env 604899 r = Inr (payload r)
     \<and> payload r = [(''userId'', JString ''u1''), (''iat'', JNumber 100), (''exp'', JNumber 604900)]
     \<and> map_of (payload r) ''userId'' = Some (JString ''u1'')"
  using issue_verify_roundtrip
    [of sample_env sample_ms 900000 999 100 604800000 604899 100 "''u1''"]
  by (simp add: sample_env_def sample_ms_def)

text \<open>
  C9. Token kinds are distinguished only by the signing secret. Under a configuration
  with which tokens can be issued, for every user \<open>u\<close>: the access token and the refresh
  token carry the same claim names (no field marks the kind). If the two secrets are
  equal, \<open>verifyAccessToken\<close> accepts the refresh token until that token's own expiry and
  \<open>verifyRefreshToken\<close> accepts the access token until its expiry; if the secrets differ,
  each verifier rejects the other kind's token with \<open>TokenSignatureInvalid\<close> at every
  time.
\<close>

theorem kinds_differ_only_by_secret:
  assumes "ACCESS_TOKEN_SECRET e \<noteq> []" and "ms (ACCESS_TOKEN_EXPIRY e) = Some ma"
    and "REFRESH_TOKEN_SECRET e \<noteq> []" and "ms (REFRESH_TOKEN_EXPIRY e) = Some mr"
  shows "\<exists>a r. generateAccessToken ms e t0 u = Inr a
           \<and> generateRefreshToken ms e t0' u = Inr r
           \<and> map fst (payload a) = map fst (payload r)
           \<and> (if ACCESS_TOKEN_SECRET e = REFRESH_TOKEN_SECRET e
               then verifyAccessToken e t r =
                      (if t0' + mr div 1000 \<le> t then Inl TokenExpired else Inr (payload r))
                  \<and> verifyRefreshToken e t a =
                      (if t0 + ma div 1000 \<le> t then Inl TokenExpired else Inr (payload a))
               else verifyAccessToken e t r = Inl TokenSignatureInvalid
                  \<and> verifyRefreshToken e t a = Inl TokenSignatureInvalid)"
proof -
  let ?ca = "[(''userId'', JString u), (''iat'', JNumber t0), (''exp'', JNumber (t0 + ma div 1000))]"
  let ?cr = "[(''userId'', JString u), (''iat'', JNumber t0'), (''exp'', JNumber (t0' + mr div 1000))]"
  let ?a = "Jwt ?ca (HS256 (ACCESS_TOKEN_SECRET e) ?ca)"
  let ?r = "Jwt ?cr (HS256 (REFRESH_TOKEN_SECRET e) ?cr)"
  have ga: "generateAccessToken ms e t0 u = Inr ?a"
    using assms(1,2) by (simp add: generateAccessToken_def jwt_sign_Inr)
  have gr: "generateRefreshToken ms e t0' u = Inr ?r"
    using assms(3,4) by (simp add: generateRefreshToken_def jwt_sign_Inr)
  have same: "ACCESS_TOKEN_SECRET e = REFRESH_TOKEN_SECRET e \<Longrightarrow>
      verifyAccessToken e t ?r =
        (if t0' + mr div 1000 \<le> t then Inl TokenExpired else Inr (payload ?r))
    \<and> verifyRefreshToken e t ?a =
        (if t0 + ma div 1000 \<le> t then Inl TokenExpired else Inr (payload ?a))"
    using assms(1,3) by (simp add: verifyAccessToken_def verifyRefreshToken_def jwt_verify_def check_nbf_exp_def check_exp_def hmac_alg_def)
  have differ: "ACCESS_TOKEN_SECRET e \<noteq> REFRESH_TOKEN_SECRET e \<Longrightarrow>
      verifyAccessToken e t ?r = Inl TokenSignatureInvalid
    \<and> verifyRefreshToken e t ?a = Inl TokenSignatureInvalid"
    using assms(1,3) by (simp add: verifyAccessToken_def verifyRefreshToken_def jwt_verify_def check_nbf_exp_def check_exp_def hmac_alg_def)
  show ?thesis
    using ga gr same differ by (cases "ACCESS_TOKEN_SECRET e = REFRESH_TOKEN_SECRET e") simp_all
qed

theorem kinds_differ_only_by_secret_witness:
  "(\<exists>a r. generateAccessToken sample_ms shared_secret_env 100 ''u1'' = Inr a
      \<and> generateRefreshToken sample_ms shared_secret_env 100 ''u1'' = Inr r
      \<and> map fst (payload a) = map fst (payload r)
      \<and> verifyAccessToken shared_secret_env 200 r = Inr (payload r)
      \<and> verifyRefreshToken shared_secret_env 200 a = Inr (payload a))
   \<and> (\<exists>a r. generateAccessToken sample_ms sample_env 100 ''u1'' = Inr a
      \<and> generateRefreshToken sample_ms sample_env 100 ''u1'' = Inr r
      \<and> map fst (payload a) = map fst (payload r)
      \<and> verifyAccessToken sample_env 200 r = Inl TokenSignatureInvalid
      \<and> verifyRefreshToken sample_env 200 a = Inl TokenSignatureInvalid)"
  using kinds_differ_only_by_secret
      [of shared_secret_env sample_ms 900000 604800000 100 "''u1''" 100 200]
    kinds_differ_only_by_secret
      [of sample_env sample_ms 900000 604800000 100 "''u1''" 100 200]
  by (simp add: shared_secret_env_def sample_env_def sample_ms_def)

text \<open>
  C3, as the claim states it, fails: the refresh token that \<open>generateRefreshToken\<close> issues
  for user \<^verbatim>\<open>u1\<close> has neither a \<^verbatim>\<open>sid\<close> nor a \<^verbatim>\<open>sub\<close> claim. The method takes a user
  identifier only, and signs \<^verbatim>\<open>{ userId }\<close>.
\<close>

theorem refresh_token_sid_counterexample:
  "generateRefreshToken sample_ms sample_env 100 ''u1'' =
     Inr (Jwt [(''userId'', JString ''u1''), (''iat'', JNumber 100), (''exp'', JNumber 604900)]
           (HS256 ''refresh-secret''
              [(''userId'', JString ''u1''), (''iat'', JNumber 100), (''exp'', JNumber 604900)]))
   \<and> map_of [(''userId'', JString ''u1''), (''iat'', JNumber 100), (''exp'', JNumber 604900)]
        ''sid'' = None
   \<and> map_of [(''userId'', JString ''u1''), (''iat'', JNumber 100), (''exp'', JNumber 604900)]
        ''sub'' = None"
  by (simp add: generateRefreshToken_def jwt_sign_def Let_def sample_ms_def sample_env_def)

text \<open>
  C3, amended. Under a configuration with which tokens can be issued, for every user
  \<open>u\<close>: the refresh token issued by \<open>generateRefreshToken\<close> carries exactly the claims
  \<^verbatim>\<open>{userId: u, iat, exp}\<close>, signed with the refresh secret, and the access token issued by
  \<open>generateAccessToken\<close> carries exactly \<^verbatim>\<open>{userId: u, iat, exp}\<close>, signed with the access
  secret, each with \<^verbatim>\<open>exp\<close> at \<^verbatim>\<open>iat\<close> plus its own lifetime. Neither carries a \<^verbatim>\<open>sid\<close>
  claim.
\<close>

theorem issued_claims:
  assumes "ACCESS_TOKEN_SECRET e \<noteq> []" and "ms (ACCESS_TOKEN_EXPIRY e) = Some ma"
    and "REFRESH_TOKEN_SECRET e \<noteq> []" and "ms (REFRESH_TOKEN_EXPIRY e) = Some mr"
  shows "\<exists>a r. generateAccessToken ms e now u = Inr a
           \<and> generateRefreshToken ms e now u = Inr r
           \<and> a = Jwt (payload a) (HS256 (ACCESS_TOKEN_SECRET e) (payload a))
           \<and> r = Jwt (payload r) (HS256 (REFRESH_TOKEN_SECRET e) (payload r))
           \<and> payload a = [(''userId'', JString u), (''iat'', JNumber now),
                           (''exp'', JNumber (now + ma div 1000))]
           \<and> payload r = [(''userId'', JString u), (''iat'', JNumber now),
                           (''exp'', JNumber (now + mr div 1000))]
           \<and> map_of (payload a) ''sid'' = None
           \<and> map_of (payload r) ''sid'' = None"
  using assms
  by (simp add: generateAccessToken_def generateRefreshToken_def jwt_sign_Inr)

theorem issued_claims_witness:
  "\<exists>a r. generateAccessToken sample_ms sample_env 100 ''u1'' = Inr a
     \<and> generateRefreshToken sample_ms sample_env 100 ''u1'' = Inr r
     \<and> a = Jwt (payload a) (HS256 ''access-secret'' (payload a))
     \<and> r = Jwt (payload r) (HS256 ''refresh-secret'' (payload r))
     \<and> payload a = [(''userId'', JString ''u1''), (''iat'', JNumber 100), (''exp'', JNumber 1000)]
     \<and> payload r = [(''userId'', JString ''u1''), (''iat'', JNumber 100), (''exp'', JNumber 604900)]
     \<and> map_of (payload a) ''sid'' = None
     \<and> map_of (payload r) ''sid'' = None"
  using issued_claims [of sample_env sample_ms 900000 604800000 100 "''u1''"]
  by (simp add: sample_env_def sample_ms_def)




text \<open>
  C2, as the claim states it, fails: \<open>verifyAccessToken\<close> is one call of \<^verbatim>\<open>jwt.verify\<close>
  and consults no revocation index. With user \<^verbatim>\<open>u1\<close> present in the index, a well-signed,
  unexpired access token of \<^verbatim>\<open>u1\<close> is accepted.
\<close>

theorem revoked_subject_counterexample:
  "revocation_contains revoked_u1 ''u1'' = Resolved True
   \<and> verifyAccessToken sample_env 120
        (Jwt [(''userId'', JString ''u1''), (''iat'', JNumber 100), (''exp'', JNumber 1000)]
           (HS256 ''access-secret''
              [(''userId'', JString ''u1''), (''iat'', JNumber 100), (''exp'', JNumber 1000)]))
        = Inr [(''userId'', JString ''u1''), (''iat'', JNumber 100), (''exp'', JNumber 1000)]"
  by (simp add: revoked_u1_def revocation_contains_def revocation_add_def get_redis_def
      client_get_def set_redis_def setEx_def empty_store_def sample_ms_def sample_env_def
      verifyAccessToken_def jwt_verify_def check_nbf_exp_def check_exp_def hmac_alg_def)

text \<open>
  C2, amended. For every access token, \<open>verifyAccessToken\<close> checks the signature and the
  token's time claims only. It has no access to the store, so it reads no revocation
  index, and it never fails with \<open>SessionRevoked\<close>. It fails with
  \<open>TokenSignatureInvalid\<close> when the token carries a signature under an HMAC algorithm
  that is not the one the access secret gives for its content; a well-signed token that
  is active (no \<^verbatim>\<open>nbf\<close>, or a numeric one the clock has reached) is judged by its numeric
  \<^verbatim>\<open>exp\<close> alone: \<open>TokenExpired\<close> once the clock has reached it, accepted before. In
  particular, for every user and at every time there is a world in which the user is in
  the revocation index and a token of that user is accepted.
\<close>

theorem verifyAccessToken_no_revocation_check:
  assumes "ACCESS_TOKEN_SECRET e \<noteq> []"
  shows "verifyAccessToken e now tok \<noteq> Inl SessionRevoked
       \<and> (s \<noteq> NoSignature \<and> hmac_alg a \<and> s \<noteq> Hmac a (ACCESS_TOKEN_SECRET e) c \<longrightarrow>
            verifyAccessToken e now (Token a c s) = Inl TokenSignatureInvalid)
       \<and> (hmac_alg a
            \<and> (map_of c ''nbf'' = None \<or> map_of c ''nbf'' = Some (JNumber n) \<and> n \<le> now)
            \<and> map_of c ''exp'' = Some (JNumber ex) \<longrightarrow>
            verifyAccessToken e now (Token a c (Hmac a (ACCESS_TOKEN_SECRET e) c)) =
              (if ex \<le> now then Inl TokenExpired else Inr c))
       \<and> (\<exists>w tok' c'. clock w = now \<and> revocation_contains w u = Resolved True
            \<and> verifyAccessToken e now tok' = Inr c'
            \<and> map_of c' ''userId'' = Some (JString u))"
proof -
  let ?k = "ACCESS_TOKEN_SECRET e"
  have never: "verifyAccessToken e now tok \<noteq> Inl SessionRevoked"
    by (simp add: verifyAccessToken_def jwt_verify_never_SessionRevoked)
  have bad: "s \<noteq> NoSignature \<and> hmac_alg a \<and> s \<noteq> Hmac a ?k c \<longrightarrow>
      verifyAccessToken e now (Token a c s) = Inl TokenSignatureInvalid"
    using assms by (simp add: verifyAccessToken_def jwt_verify_bad_signature)
  have expiry: "hmac_alg a
      \<and> (map_of c ''nbf'' = None \<or> map_of c ''nbf'' = Some (JNumber n) \<and> n \<le> now)
      \<and> map_of c ''exp'' = Some (JNumber ex) \<longrightarrow>
      verifyAccessToken e now (Token a c (Hmac a ?k c)) =
        (if ex \<le> now then Inl TokenExpired else Inr c)"
    using assms check_nbf_exp_active [of c n now ex]
    by (simp add: verifyAccessToken_def jwt_verify_signed)
  let ?w = "\<lparr>clock = now,
      store = \<lparr>entries = [''revoked:'' @ u \<mapsto> (RevocationEntry now, 1)], link = Ready\<rparr>\<rparr>"
  let ?c = "[(''userId'', JString u), (''iat'', JNumber now), (''exp'', JNumber (now + 1))]"
  have rev: "revocation_contains ?w u = Resolved True"
    by (simp add: revocation_contains_def get_redis_def client_get_def)
  have acc: "verifyAccessToken e now (Jwt ?c (HS256 ?k ?c)) = Inr ?c"
    using assms
    by (simp add: verifyAccessToken_def jwt_verify_def check_nbf_exp_def check_exp_def
        hmac_alg_def)
  have "clock ?w = now \<and> revocation_contains ?w u = Resolved True
      \<and> verifyAccessToken e now (Jwt ?c (HS256 ?k ?c)) = Inr ?c
      \<and> map_of ?c ''userId'' = Some (JString u)"
    using rev acc by simp
  then have ex: "\<exists>w tok' c'. clock w = now \<and> revocation_contains w u = Resolved True
      \<and> verifyAccessToken e now tok' = Inr c' \<and> map_of c' ''userId'' = Some (JString u)"
    by blast
  show ?thesis using never bad expiry ex by blast
qed

theorem verifyAccessToken_no_revocation_check_witness:
  "revocation_contains revoked_u1 ''u1'' = Resolved True
   \<and> verifyAccessToken sample_env 120 sample_A1
        = Inr [(''userId'', JString ''u1''), (''iat'', JNumber 100), (''exp'', JNumber 1000)]
   \<and> verifyAccessToken sample_env 1000 sample_A1 = Inl TokenExpired
   \<and> verifyAccessToken sample_env 120
        (Jwt [(''userId'', JString ''u1''), (''iat'', JNumber 100), (''exp'', JNumber 1000)]
           (HS256 ''guessed''
              [(''userId'', JString ''u1''), (''iat'', JNumber 100), (''exp'', JNumber 1000)]))
        = Inl TokenSignatureInvalid
   \<and> verifyAccessToken sample_env 120 (NotJwt ''x'') \<noteq> Inl SessionRevoked"
proof -
  have r: "revocation_contains revoked_u1 ''u1'' = Resolved True"
    by (simp add: revoked_u1_def revocation_contains_def revocation_add_def get_redis_def
        client_get_def set_redis_def setEx_def empty_store_def sample_ms_def sample_env_def)
  show ?thesis
    using r
      verifyAccessToken_no_revocation_check [of sample_env 120 "NotJwt ''x''"
        "HS256 ''guessed''
           [(''userId'', JString ''u1''), (''iat'', JNumber 100), (''exp'', JNumber 1000)]"
        AlgHS256
        "[(''userId'', JString ''u1''), (''iat'', JNumber 100), (''exp'', JNumber 1000)]"
        0 1000 "''u1''"]
      verifyAccessToken_no_revocation_check [of sample_env 1000 "NotJwt ''x''"
        "HS256 ''guessed''
           [(''userId'', JString ''u1''), (''iat'', JNumber 100), (''exp'', JNumber 1000)]"
        AlgHS256
        "[(''userId'', JString ''u1''), (''iat'', JNumber 100), (''exp'', JNumber 1000)]"
        0 1000 "''u1''"]
    by (simp add: sample_env_def sample_A1_def hmac_alg_def)
qed

section \<open>The store\<close>

lemma set_redis_ready:
  "link c = Ready \<Longrightarrow> 0 < ttl \<Longrightarrow>
   set_redis c key v ttl = Resolved (c\<lparr>entries := (entries c)(key \<mapsto> (v, ttl))\<rparr>)"
  by (simp add: set_redis_def setEx_def)

lemma get_redis_ready:
  "link c = Ready \<Longrightarrow> get_redis c key = Resolved (map_option fst (entries c key))"
  by (simp add: get_redis_def client_get_def)

lemma del_redis_ready:
  "link c = Ready \<Longrightarrow> del_redis c key = Resolved (c\<lparr>entries := (entries c)(key := None)\<rparr>)"
  by (simp add: del_redis_def client_del_def)

lemma set_redis_Resolved_iff:
  "set_redis c key v ttl = Resolved c' \<longleftrightarrow>
     link c = Ready \<and> 0 < ttl \<and> c' = c\<lparr>entries := (entries c)(key \<mapsto> (v, ttl))\<rparr>"
  by (auto simp: set_redis_def setEx_def split: link_state.splits if_splits)

lemma set_redis_Rejected_iff:
  "set_redis c key v ttl = Rejected err \<longleftrightarrow>
     (\<exists>x. setEx c key ttl v = Rejected x) \<and> err = Error ''Redis set failed''"
  by (auto simp: set_redis_def split: promise.splits)

lemma get_redis_Rejected_iff:
  "get_redis c key = Rejected err \<longleftrightarrow>
     (\<exists>x. client_get c key = Rejected x) \<and> err = Error ''Redis get failed''"
  by (auto simp: get_redis_def split: promise.splits)

lemma del_redis_Rejected_iff:
  "del_redis c key = Rejected err \<longleftrightarrow>
     (\<exists>x. client_del c key = Rejected x) \<and> err = Error ''Redis delete failed''"
  by (auto simp: del_redis_def split: promise.splits)

text \<open>
  C5, as the claim states it, fails for the connectivity failure of a server that
  cannot be reached: the client queues the command and \<open>set\<close>, \<open>get\<close> and \<open>del\<close> stay
  pending, so no error surfaces to the caller.
\<close>

theorem offline_store_counterexample:
  "set_redis (offline_store :: string client) ''session:s1'' ''v'' 60 = Pending
   \<and> get_redis (offline_store :: string client) ''session:s1'' = Pending
   \<and> del_redis (offline_store :: string client) ''session:s1'' = Pending"
  by (simp add: set_redis_def get_redis_def del_redis_def setEx_def client_get_def
      client_del_def offline_store_def)

text \<open>
  C5, amended. Every failure that the client reports for the command behind \<open>set\<close>,
  \<open>get\<close> or \<open>del\<close> (a rejected command: one the server refuses, such as a time to live
  that is not positive, or one the client rejects) reaches the caller as the raised
  \<open>StoreUnavailable\<close> error of the operation, never as a success or an absent result;
  an operation resolves only when its command did, and an operation that raises, raises
  \<open>StoreUnavailable\<close>. While the server cannot be reached all three operations stay
  pending: they return no success and no absent result, and raise nothing either.
\<close>

theorem store_failures_surface:
  "(setEx c key ttl v = Rejected x \<longrightarrow> set_redis c key v ttl = Rejected (Error ''Redis set failed''))
   \<and> (client_get c key = Rejected x \<longrightarrow> get_redis c key = Rejected (Error ''Redis get failed''))
   \<and> (client_del c key = Rejected x \<longrightarrow>
        del_redis c key = Rejected (Error ''Redis delete failed''))
   \<and> (set_redis c key v ttl = Resolved c' \<longrightarrow> setEx c key ttl v = Resolved c')
   \<and> (get_redis c key = Resolved r \<longrightarrow> client_get c key = Resolved r)
   \<and> (del_redis c key = Resolved c' \<longrightarrow> client_del c key = Resolved c')
   \<and> (link c = Rejecting \<longrightarrow>
        set_redis c key v ttl = Rejected (Error ''Redis set failed'')
        \<and> get_redis c key = Rejected (Error ''Redis get failed'')
        \<and> del_redis c key = Rejected (Error ''Redis delete failed''))
   \<and> (link c = Ready \<and> ttl \<le> 0 \<longrightarrow>
        set_redis c key v ttl = Rejected (Error ''Redis set failed''))
   \<and> (link c = Offline \<longrightarrow>
        set_redis c key v ttl = Pending \<and> get_redis c key = Pending
        \<and> del_redis c key = Pending)
   \<and> (set_redis c key v ttl = Rejected err \<longrightarrow> StoreUnavailable err)
   \<and> (get_redis c key = Rejected err \<longrightarrow> StoreUnavailable err)
   \<and> (del_redis c key = Rejected err \<longrightarrow> StoreUnavailable err)"
proof -
  have rejected: "(setEx c key ttl v = Rejected x \<longrightarrow>
        set_redis c key v ttl = Rejected (Error ''Redis set failed''))
    \<and> (client_get c key = Rejected x \<longrightarrow> get_redis c key = Rejected (Error ''Redis get failed''))
    \<and> (client_del c key = Rejected x \<longrightarrow>
        del_redis c key = Rejected (Error ''Redis delete failed''))"
    by (simp add: set_redis_def get_redis_def del_redis_def)
  have resolved: "(set_redis c key v ttl = Resolved c' \<longrightarrow> setEx c key ttl v = Resolved c')
    \<and> (get_redis c key = Resolved r \<longrightarrow> client_get c key = Resolved r)
    \<and> (del_redis c key = Resolved c' \<longrightarrow> client_del c key = Resolved c')"
    by (simp add: set_redis_def get_redis_def del_redis_def split: promise.splits)
  have states: "(link c = Rejecting \<longrightarrow>
        set_redis c key v ttl = Rejected (Error ''Redis set failed'')
        \<and> get_redis c key = Rejected (Error ''Redis get failed'')
        \<and> del_redis c key = Rejected (Error ''Redis delete failed''))
    \<and> (link c = Ready \<and> ttl \<le> 0 \<longrightarrow>
        set_redis c key v ttl = Rejected (Error ''Redis set failed''))
    \<and> (link c = Offline \<longrightarrow>
        set_redis c key v ttl = Pending \<and> get_redis c key = Pending
        \<and> del_redis c key = Pending)"
    by (simp add: set_redis_def get_redis_def del_redis_def setEx_def client_get_def
        client_del_def)
  have raised: "(set_redis c key v ttl = Rejected err \<longrightarrow> StoreUnavailable err)
    \<and> (get_redis c key = Rejected err \<longrightarrow> StoreUnavailable err)
    \<and> (del_redis c key = Rejected err \<longrightarrow> StoreUnavailable err)"
    by (simp add: set_redis_Rejected_iff get_redis_Rejected_iff del_redis_Rejected_iff
        StoreUnavailable_def)
  show ?thesis using rejected resolved states raised by blast
qed

theorem store_failures_surface_witness:
  "set_redis (rejecting_store :: string client) ''session:s1'' ''v'' 60
      = Rejected (Error ''Redis set failed'')
   \<and> get_redis (rejecting_store :: string client) ''session:s1''
      = Rejected (Error ''Redis get failed'')
   \<and> del_redis (rejecting_store :: string client) ''session:s1''
      = Rejected (Error ''Redis delete failed'')
   \<and> set_redis (empty_store :: string client) ''session:s1'' ''v'' 0
      = Rejected (Error ''Redis set failed'')
   \<and> set_redis (offline_store :: string client) ''session:s1'' ''v'' 60 = Pending
   \<and> get_redis (offline_store :: string client) ''session:s1'' = Pending
   \<and> del_redis (offline_store :: string client) ''session:s1'' = Pending
   \<and> setEx (empty_store :: string client) ''session:s1'' 60 ''v''
      = set_redis (empty_store :: string client) ''session:s1'' ''v'' 60
   \<and> client_get (empty_store :: string client) ''session:s1'' = Resolved None
   \<and> client_del (empty_store :: string client) ''session:s1'' = Resolved empty_store
   \<and> StoreUnavailable (Error ''Redis set failed'')
   \<and> StoreUnavailable (Error ''Redis get failed'')
   \<and> StoreUnavailable (Error ''Redis delete failed'')"
  using
    store_failures_surface [of "rejecting_store :: string client" "''session:s1''" 60
      "''v''" "Error ''The client is closed''" _ _ "Error ''Redis set failed''"]
    store_failures_surface [of "rejecting_store :: string client" "''session:s1''" 60
      "''v''" "Error ''The client is closed''" _ _ "Error ''Redis get failed''"]
    store_failures_surface [of "rejecting_store :: string client" "''session:s1''" 60
      "''v''" "Error ''The client is closed''" _ _ "Error ''Redis delete failed''"]
    store_failures_surface [of "empty_store :: string client" "''session:s1''" 0
      "''v''" "Error ''ERR invalid expire time in setex command''" _ _
      "Error ''Redis set failed''"]
    store_failures_surface [of "offline_store :: string client" "''session:s1''" 60 "''v''"]
    store_failures_surface [of "empty_store :: string client" "''session:s1''" 60 "''v''" _
      "empty_store\<lparr>entries := (entries empty_store)(''session:s1'' \<mapsto> (''v'', 60))\<rparr>" None]
  by (simp add: rejecting_store_def offline_store_def empty_store_def setEx_def client_get_def
      client_del_def set_redis_def get_redis_def del_redis_def)

text \<open>
  C10. Absence is not an error: for every key that is not in the store, \<open>get\<close> on a
  store whose server answers returns \<^verbatim>\<open>null\<close> and does not raise, whereas on a store
  whose command fails it raises (and on one whose server cannot be reached it stays
  pending); the absent result and the raised error are different values.
\<close>

theorem get_absent_is_null:
  assumes "entries c k = None"
  shows "get_redis c k =
           (case link c of
              Ready \<Rightarrow> Resolved None
            | Offline \<Rightarrow> Pending
            | Rejecting \<Rightarrow> Rejected (Error ''Redis get failed''))
       \<and> (Resolved None :: 'v option promise) \<noteq> Rejected (Error ''Redis get failed'')"
  using assms by (simp add: get_redis_def client_get_def split: link_state.splits)

theorem get_absent_is_null_witness:
  "get_redis (empty_store :: string client) ''session:s1'' = Resolved None
   \<and> get_redis (rejecting_store :: string client) ''session:s1''
       = Rejected (Error ''Redis get failed'')
   \<and> get_redis (offline_store :: string client) ''session:s1'' = Pending
   \<and> (Resolved None :: string option promise) \<noteq> Rejected (Error ''Redis get failed'')"
  using get_absent_is_null [of "empty_store :: string client" "''session:s1''"]
    get_absent_is_null [of "rejecting_store :: string client" "''session:s1''"]
    get_absent_is_null [of "offline_store :: string client" "''session:s1''"]
  by (simp add: empty_store_def rejecting_store_def offline_store_def)

lemma set_redis_twice:
  assumes "set_redis c key v ttl = Resolved c'"
  shows "set_redis c' key v ttl = Resolved c'"
  using assms by (auto simp: set_redis_Resolved_iff)

lemma set_redis_later:
  assumes "set_redis c key v ttl = Resolved c'"
  shows "set_redis (elapse d c') key v ttl = set_redis (elapse d c) key v ttl"
proof -
  from assms have r: "link c = Ready" and t: "0 < ttl"
    and c': "c' = c\<lparr>entries := (entries c)(key \<mapsto> (v, ttl))\<rparr>"
    by (simp_all add: set_redis_Resolved_iff)
  have r1: "link (elapse d c') = Ready" and r2: "link (elapse d c) = Ready"
    using r c' by (simp_all add: elapse_def)
  have "(entries (elapse d c'))(key \<mapsto> (v, ttl)) = (entries (elapse d c))(key \<mapsto> (v, ttl))"
    unfolding c' by (rule ext) (simp add: elapse_def)
  then show ?thesis
    using r1 r2 t unfolding c' by (simp add: set_redis_ready elapse_def)
qed

lemma del_redis_absent:
  assumes "link c = Ready" and "entries c key = None"
  shows "del_redis c key = Resolved c"
proof -
  have "(entries c)(key := None) = entries c"
    using assms(2) by (rule_tac ext) simp
  then show ?thesis using assms(1) by (simp add: del_redis_ready)
qed

lemma revocation_add_ok:
  assumes "link (store w) = Ready" and "ms (ACCESS_TOKEN_EXPIRY e) = Some ma"
    and "0 < ma div 1000"
  shows "revocation_add ms e w subj =
     (Resolved (), w\<lparr>store := (store w)\<lparr>entries := (entries (store w))
         (''revoked:'' @ subj \<mapsto> (RevocationEntry (clock w), ma div 1000))\<rparr>\<rparr>)"
  using assms by (simp add: revocation_add_def set_redis_ready)

lemma logout_ok:
  assumes "link (store w) = Ready" and "ms (ACCESS_TOKEN_EXPIRY e) = Some ma"
    and "0 < ma div 1000"
  shows "logout ms e w sid =
     (Resolved (), w\<lparr>store := (store w)\<lparr>entries := ((entries (store w))(''session:'' @ sid := None))
         (''revoked:'' @ sid \<mapsto> (RevocationEntry (clock w), ma div 1000))\<rparr>\<rparr>)"
  using assms by (simp add: logout_def del_redis_ready revocation_add_ok)

lemma logout_session_absent:
  assumes "link (store w) = Ready" and "ms (ACCESS_TOKEN_EXPIRY e) = Some ma"
    and "0 < ma div 1000"
  shows "\<exists>w1. logout ms e w sid = (Resolved (), w1) \<and> link (store w1) = Ready
           \<and> get_redis (store w1) (''session:'' @ sid) = Resolved None"
  using assms by (simp add: logout_ok get_redis_ready)

lemma logout_twice:
  assumes "link (store w) = Ready" and "ms (ACCESS_TOKEN_EXPIRY e) = Some ma"
    and "0 < ma div 1000"
    and "logout ms e w sid = (Resolved (), w1)"
  shows "logout ms e w1 sid = (Resolved (), w1)"
proof -
  let ?E = "((entries (store w))(''session:'' @ sid := None))
         (''revoked:'' @ sid \<mapsto> (RevocationEntry (clock w), ma div 1000))"
  have w1: "w1 = w\<lparr>store := (store w)\<lparr>entries := ?E\<rparr>\<rparr>"
    using assms by (simp add: logout_ok)
  have r1: "link (store w1) = Ready" and c1: "clock w1 = clock w"
    using assms(1) by (simp_all add: w1)
  have E: "entries (store w1) = ?E" by (simp add: w1)
  have "(?E(''session:'' @ sid := None))
         (''revoked:'' @ sid \<mapsto> (RevocationEntry (clock w), ma div 1000)) = ?E"
    by (rule ext) simp
  then show ?thesis
    using logout_ok [of w1 ms e ma sid] r1 assms(2,3) by (simp add: c1 E)
qed

lemma link_advance: "link (store (advance d w)) = link (store w)"
  by (simp add: advance_def elapse_def)

text \<open>
  C6. Store operations are idempotent. A \<open>set\<close> that succeeded, performed again with the
  same key, value and time to live, succeeds and leaves the same store; if time passes
  in between, the store after both calls is the store after the later call alone (the
  value is overwritten and its timer restarts). A \<open>set\<close> that does not succeed leaves
  the store as it was. \<open>del\<close> of a key that is not there succeeds and changes nothing.
  With a store whose server answers and a positive access-token lifetime, \<open>logout\<close>
  succeeds and leaves the session absent, and a second \<open>logout\<close> of the same session, at
  once or any time later, succeeds again and leaves it absent.
\<close>

theorem store_operations_idempotent:
  "(set_redis c key v ttl = Resolved c' \<longrightarrow>
       set_redis c' key v ttl = Resolved c'
       \<and> set_redis (elapse d c') key v ttl = set_redis (elapse d c) key v ttl)
   \<and> (link c = Ready \<and> entries c key = None \<longrightarrow> del_redis c key = Resolved c)
   \<and> (link (store w) = Ready \<and> ms (ACCESS_TOKEN_EXPIRY e) = Some ma \<and> 0 < ma div 1000 \<longrightarrow>
       (\<exists>w1. logout ms e w sid = (Resolved (), w1)
           \<and> get_redis (store w1) (''session:'' @ sid) = Resolved None
           \<and> logout ms e w1 sid = (Resolved (), w1)
           \<and> (\<exists>w2. logout ms e (advance d' w1) sid = (Resolved (), w2)
                 \<and> get_redis (store w2) (''session:'' @ sid) = Resolved None)))"
proof -
  have a: "set_redis c key v ttl = Resolved c' \<longrightarrow>
       set_redis c' key v ttl = Resolved c'
       \<and> set_redis (elapse d c') key v ttl = set_redis (elapse d c) key v ttl"
    using set_redis_twice [of c key v ttl c'] set_redis_later [of c key v ttl c' d] by blast
  have b: "link c = Ready \<and> entries c key = None \<longrightarrow> del_redis c key = Resolved c"
    using del_redis_absent [of c key] by blast
  have c: "\<exists>w1. logout ms e w sid = (Resolved (), w1)
           \<and> get_redis (store w1) (''session:'' @ sid) = Resolved None
           \<and> logout ms e w1 sid = (Resolved (), w1)
           \<and> (\<exists>w2. logout ms e (advance d' w1) sid = (Resolved (), w2)
                 \<and> get_redis (store w2) (''session:'' @ sid) = Resolved None)"
    if h: "link (store w) = Ready" "ms (ACCESS_TOKEN_EXPIRY e) = Some ma" "0 < ma div 1000"
  proof -
    from logout_session_absent [of w ms e ma sid] h obtain w1 where
      w1: "logout ms e w sid = (Resolved (), w1)" "link (store w1) = Ready"
        "get_redis (store w1) (''session:'' @ sid) = Resolved None"
      by blast
    have again: "logout ms e w1 sid = (Resolved (), w1)"
      using logout_twice [of w ms e ma sid w1] h w1(1) by blast
    have "link (store (advance d' w1)) = Ready"
      using w1(2) by (simp add: link_advance)
    with logout_session_absent [of "advance d' w1" ms e ma sid] h(2,3) obtain w2 where
      "logout ms e (advance d' w1) sid = (Resolved (), w2)"
      "get_redis (store w2) (''session:'' @ sid) = Resolved None"
      by blast
    with w1 again show ?thesis by blast
  qed
  show ?thesis using a b c by blast
qed

theorem store_operations_idempotent_witness:
  "(\<exists>c'. set_redis (empty_store :: string client) ''k'' ''v'' 60 = Resolved c'
        \<and> set_redis c' ''k'' ''v'' 60 = Resolved c')
   \<and> del_redis (empty_store :: string client) ''k'' = Resolved empty_store
   \<and> (\<exists>w1. logout sample_ms sample_env \<lparr>clock = 100, store = empty_store\<rparr> ''s1''
          = (Resolved (), w1)
        \<and> get_redis (store w1) ''session:s1'' = Resolved None
        \<and> logout sample_ms sample_env w1 ''s1'' = (Resolved (), w1)
        \<and> (\<exists>w2. logout sample_ms sample_env (advance 30 w1) ''s1'' = (Resolved (), w2)
              \<and> get_redis (store w2) ''session:s1'' = Resolved None))"
  using store_operations_idempotent [of "empty_store :: string client" "''k''" "''v''" 60
      "empty_store\<lparr>entries := (entries empty_store)(''k'' \<mapsto> (''v'', 60))\<rparr>" 0
      "\<lparr>clock = 100, store = empty_store\<rparr>" sample_ms sample_env 900000 "''s1''" 30]
  by (simp add: set_redis_ready empty_store_def sample_ms_def sample_env_def)

section \<open>Login\<close>










end
